theory Spec2Isabelle
  imports Complex_Main "HOL-Library.AList" "HOL-Library.Monad_Syntax" "HOL-Library.Product_Lexorder"
begin

section \<open>Values and exceptions\<close>

text \<open>
  Python numbers as they occur in the product fields and in a JSON document: an unbounded
  \<open>int\<close>, or a finite \<open>float\<close>, which is carried as the rational it denotes (no
  operation modelled here computes with a float).
\<close>

datatype number = PyInt int | PyFloat rat

text \<open>
  What \<open>json.load\<close> returns. A JSON object is a Python \<open>dict\<close> with string keys, kept as
  an association list in insertion order.
\<close>

datatype json =
    JNull
  | JBool bool
  | JNum number
  | JStr string
  | JArr "json list"
  | JObj "(string \<times> json) list"

text \<open>
  The exception classes: the four declared at the top of \<open>inventory_system.py\<close>, and the
  built-in ones that the interpreter and the standard library raise inside the modelled
  methods. \<open>mro\<close> lists a class with its base classes, as the \<open>class\<close> statements
  declare them (\<open>class OutOfStockError(InventoryError)\<close>); of the bases of a built-in class
  only \<open>Exception\<close> is listed.
\<close>

datatype exc_class =
    Exception
  | InventoryError
  | DuplicateProductIDError
  | OutOfStockError
  | InvalidProductDataError
  | KeyError
  | TypeError
  | AttributeError
  | ValueError
  | OSError

fun mro :: "exc_class \<Rightarrow> exc_class list" where
  "mro Exception = [Exception]"
| "mro InventoryError = [InventoryError, Exception]"
| "mro DuplicateProductIDError = [DuplicateProductIDError, InventoryError, Exception]"
| "mro OutOfStockError = [OutOfStockError, InventoryError, Exception]"
| "mro InvalidProductDataError = [InvalidProductDataError, InventoryError, Exception]"
| "mro c = [c, Exception]"

text \<open>
  The text an exception carries. The program's own messages are one constructor each
  (\<open>f"Not enough stock for product {self._name}"\<close> keeps the name,
  \<open>f"Unknown product type: {cls_name}"\<close> the tag, \<open>f"Error loading data: {e}"\<close> the
  text of the exception caught); \<open>Library_text\<close> is the text of an exception raised by the
  interpreter or the standard library.
\<close>

datatype message =
    Product_ID_already_exists
  | Not_enough_stock_for_product string
  | Product_not_found
  | Unknown_product_type json
  | Error_loading_data message
  | Library_text

datatype exn = Exn (cls: exc_class) (msg: message)

text \<open>\<open>isinstance(e, c)\<close>: what \<open>except c\<close> and \<open>pytest.raises(c)\<close> test.\<close>

definition isinstance :: "exn \<Rightarrow> exc_class \<Rightarrow> bool" where
  "isinstance e c = (c \<in> set (mro (cls e)))"

section \<open>Products\<close>

text \<open>
  The fields that \<open>Electronics\<close>, \<open>Grocery\<close> and \<open>Clothing\<close> add to \<open>Product\<close>:
  \<open>warranty_years\<close> and \<open>brand\<close>; \<open>expiry_date\<close>; \<open>size\<close> and \<open>material\<close>.
\<close>

datatype variant =
    Electronics int string
  | Grocery string
  | Clothing string string

text \<open>
  An instance of one of the three subclasses: the four fields that \<open>Product.__init__\<close>
  sets, and the subclass with its own fields. Python does not type the fields; each has the
  type of the values that \<open>run_cli\<close> and the tests construct products with.
\<close>

record product =
  product_id :: string
  name :: string
  price :: number
  quantity_in_stock :: int
  variant :: variant

text \<open>
  A method that can raise returns the exception raised, if any, and the object as the call
  leaves it.
\<close>

definition restock :: "product \<Rightarrow> int \<Rightarrow> product" where
  "restock p amount = p\<lparr>quantity_in_stock := quantity_in_stock p + amount\<rparr>"

definition sell :: "product \<Rightarrow> int \<Rightarrow> exn option \<times> product" where
  "sell p quantity =
     (if quantity > quantity_in_stock p
      then (Some (Exn OutOfStockError (Not_enough_stock_for_product (name p))), p)
      else (None, p\<lparr>quantity_in_stock := quantity_in_stock p - quantity\<rparr>))"

text \<open>\<open>self.__class__.__name__\<close>\<close>

fun class_name :: "product \<Rightarrow> string" where
  "class_name p =
     (case variant p of
        Electronics w b \<Rightarrow> ''Electronics''
      | Grocery e \<Rightarrow> ''Grocery''
      | Clothing s m \<Rightarrow> ''Clothing'')"

text \<open>
  \<open>to_dict\<close>: the dictionary of \<open>Product.to_dict\<close>, updated by the subclass with its own
  fields; the keys are in the order in which Python inserts them.
\<close>

definition to_dict :: "product \<Rightarrow> (string \<times> json) list" where
  "to_dict p =
     [(''type'', JStr (class_name p)),
      (''product_id'', JStr (product_id p)),
      (''name'', JStr (name p)),
      (''price'', JNum (price p)),
      (''quantity_in_stock'', JNum (PyInt (quantity_in_stock p)))]
     @ (case variant p of
          Electronics w b \<Rightarrow> [(''warranty_years'', JNum (PyInt w)), (''brand'', JStr b)]
        | Grocery e \<Rightarrow> [(''expiry_date'', JStr e)]
        | Clothing s m \<Rightarrow> [(''size'', JStr s), (''material'', JStr m)])"

text \<open>
  \<open>Grocery.is_expired\<close>, on the product's \<open>expiry_date\<close>. \<open>datetime.strptime\<close> and
  \<open>datetime.today\<close> belong to the standard library and are parameters: \<open>strptime\<close> gives
  the date that \<open>strptime(s, "%Y-%m-%d").date()\<close> returns, or \<open>None\<close> where it raises
  \<open>ValueError\<close>; \<open>today\<close> is the date that this call of \<open>datetime.today().date()\<close>
  returns.
\<close>

definition is_expired :: "(string \<Rightarrow> 'd option) \<Rightarrow> ('d::linorder) \<Rightarrow> string \<Rightarrow> exn + bool" where
  "is_expired strptime today expiry_date =
     (case strptime expiry_date of
        None \<Rightarrow> Inl (Exn ValueError Library_text)
      | Some d \<Rightarrow> Inr (d < today))"

section \<open>The inventory\<close>

text \<open>
  \<open>Inventory._products\<close> is a Python \<open>dict\<close>. It is modelled as the list of its items in
  insertion order: \<open>k in d\<close> is \<open>map_of d k \<noteq> None\<close>, \<open>d[k] = v\<close> is
  \<open>AList.update k v d\<close> (a key already present keeps its place, a new one goes last),
  \<open>d.pop(k, None)\<close> is \<open>AList.delete k d\<close>.
\<close>

record inventory =
  products :: "(string \<times> product) list"

definition Inventory :: inventory where
  "Inventory = \<lparr>products = []\<rparr>"

definition add_product :: "inventory \<Rightarrow> product \<Rightarrow> exn option \<times> inventory" where
  "add_product self p =
     (if map_of (products self) (product_id p) \<noteq> None
      then (Some (Exn DuplicateProductIDError Product_ID_already_exists), self)
      else (None, self\<lparr>products := AList.update (product_id p) p (products self)\<rparr>))"

definition remove_product :: "inventory \<Rightarrow> string \<Rightarrow> inventory" where
  "remove_product self pid = self\<lparr>products := AList.delete pid (products self)\<rparr>"

definition list_all_products :: "inventory \<Rightarrow> product list" where
  "list_all_products self = map snd (products self)"

text \<open>
  \<open>self._products[product_id].sell(quantity)\<close> calls the method on the object that the
  dictionary holds, so whatever the method leaves is what the dictionary holds afterwards.
\<close>

definition sell_product :: "inventory \<Rightarrow> string \<Rightarrow> int \<Rightarrow> exn option \<times> inventory" where
  "sell_product self pid quantity =
     (case map_of (products self) pid of
        None \<Rightarrow> (Some (Exn InventoryError Product_not_found), self)
      | Some p \<Rightarrow>
          (case sell p quantity of
             (r, p') \<Rightarrow> (r, self\<lparr>products := AList.update pid p' (products self)\<rparr>)))"

definition restock_product :: "inventory \<Rightarrow> string \<Rightarrow> int \<Rightarrow> exn option \<times> inventory" where
  "restock_product self pid quantity =
     (case map_of (products self) pid of
        None \<Rightarrow> (Some (Exn InventoryError Product_not_found), self)
      | Some p \<Rightarrow>
          (None, self\<lparr>products := AList.update pid (restock p quantity) (products self)\<rparr>))"

text \<open>
  \<open>remove_expired_products\<close>. The comprehension goes through the items in order and
  calls \<open>is_expired\<close> on the \<open>Grocery\<close> products only (\<open>isinstance(p, Grocery) and ...\<close>);
  every such call reads the clock itself. \<open>clock n\<close> is the date that the \<open>n\<close>-th call of
  \<open>datetime.today()\<close> since the method was entered returns. An exception inside the
  comprehension leaves the method before anything is deleted.
\<close>

fun to_remove ::
  "(string \<Rightarrow> 'd option) \<Rightarrow> (nat \<Rightarrow> 'd::linorder) \<Rightarrow> nat \<Rightarrow> (string \<times> product) list \<Rightarrow> exn + string list"
where
  "to_remove strptime clock n [] = Inr []"
| "to_remove strptime clock n ((pid, p) # items) =
     (case variant p of
        Grocery expiry_date \<Rightarrow>
          (case is_expired strptime (clock n) expiry_date of
             Inl e \<Rightarrow> Inl e
           | Inr expired \<Rightarrow>
               (case to_remove strptime clock (Suc n) items of
                  Inl e \<Rightarrow> Inl e
                | Inr pids \<Rightarrow> Inr (if expired then pid # pids else pids)))
      | _ \<Rightarrow> to_remove strptime clock n items)"

text \<open>\<open>for pid in to_remove: del self._products[pid]\<close>; \<open>del\<close> raises \<open>KeyError\<close> on a key that is absent.\<close>

fun del_each :: "string list \<Rightarrow> (string \<times> product) list \<Rightarrow> exn option \<times> (string \<times> product) list" where
  "del_each [] ps = (None, ps)"
| "del_each (pid # pids) ps =
     (if map_of ps pid = None then (Some (Exn KeyError Library_text), ps)
      else del_each pids (AList.delete pid ps))"

definition remove_expired_products ::
  "(string \<Rightarrow> 'd option) \<Rightarrow> (nat \<Rightarrow> 'd::linorder) \<Rightarrow> inventory \<Rightarrow> exn option \<times> inventory"
where
  "remove_expired_products strptime clock self =
     (case to_remove strptime clock 0 (products self) of
        Inl e \<Rightarrow> (Some e, self)
      | Inr pids \<Rightarrow>
          (case del_each pids (products self) of
             (r, ps) \<Rightarrow> (r, self\<lparr>products := ps\<rparr>)))"

section \<open>Saving and loading\<close>

text \<open>
  \<open>json.dump\<close> and \<open>json.load\<close> are the standard library's: a file is modelled by the JSON
  document it holds, and reading one by what \<open>open\<close> and \<open>json.load\<close> give, which is the
  exception one of them raises or the document.
\<close>

definition save_to_file :: "inventory \<Rightarrow> json" where
  "save_to_file self = JArr (map (\<lambda>p. JObj (to_dict p)) (map snd (products self)))"

text \<open>
  \<open>for item in data\<close>: a list gives its elements, a dictionary its keys, a string its
  characters; nothing else is iterable.
\<close>

fun iterate :: "json \<Rightarrow> exn + json list" where
  "iterate (JArr xs) = Inr xs"
| "iterate (JObj kvs) = Inr (map (\<lambda>kv. JStr (fst kv)) kvs)"
| "iterate (JStr s) = Inr (map (\<lambda>c. JStr [c]) s)"
| "iterate _ = Inl (Exn TypeError Library_text)"

text \<open>
  \<open>item.pop("type")\<close>: on a dictionary it returns the value and leaves the dictionary
  without the key, or raises \<open>KeyError\<close>; \<open>list.pop\<close> rejects a string argument with
  \<open>TypeError\<close>; the other values have no \<open>pop\<close>.
\<close>

fun pop_type :: "json \<Rightarrow> exn + json \<times> (string \<times> json) list" where
  "pop_type (JObj kvs) =
     (case map_of kvs ''type'' of
        None \<Rightarrow> Inl (Exn KeyError Library_text)
      | Some t \<Rightarrow> Inr (t, AList.delete ''type'' kvs))"
| "pop_type (JArr xs) = Inl (Exn TypeError Library_text)"
| "pop_type _ = Inl (Exn AttributeError Library_text)"

text \<open>
  A call \<open>C(**data)\<close> of a constructor whose parameters (after \<open>self\<close>) are \<open>params\<close>, none
  with a default: \<open>TypeError\<close> for a key that is no parameter and for a parameter without a
  key; otherwise the arguments, in the order of the parameters.
\<close>

definition call_kwargs :: "string list \<Rightarrow> (string \<times> json) list \<Rightarrow> exn + json list" where
  "call_kwargs params data =
     (if list_ex (\<lambda>k. k \<notin> set params) (map fst data) then Inl (Exn TypeError Library_text)
      else case those (map (map_of data) params) of
             None \<Rightarrow> Inl (Exn TypeError Library_text)
           | Some args \<Rightarrow> Inr args)"

text \<open>
  The constructors store their arguments as they are. The fields of \<open>product\<close> are typed,
  so an argument of another type than its field has no product in the typed store: the three
  functions below give \<open>None\<close> for it, which is not an exception of the program. What
  the program does with such values is modelled by \<open>load_from_file_untyped\<close> further down,
  which has a result for every document.
\<close>

fun as_str :: "json \<Rightarrow> string option" where
  "as_str (JStr s) = Some s"
| "as_str _ = None"

fun as_number :: "json \<Rightarrow> number option" where
  "as_number (JNum n) = Some n"
| "as_number _ = None"

fun as_int :: "json \<Rightarrow> int option" where
  "as_int (JNum (PyInt n)) = Some n"
| "as_int _ = None"

definition Product_init :: "json \<Rightarrow> json \<Rightarrow> json \<Rightarrow> json \<Rightarrow> variant \<Rightarrow> product option" where
  "Product_init a_id a_name a_price a_quantity v =
     do {
       i \<leftarrow> as_str a_id;
       n \<leftarrow> as_str a_name;
       pr \<leftarrow> as_number a_price;
       q \<leftarrow> as_int a_quantity;
       Some \<lparr>product_id = i, name = n, price = pr, quantity_in_stock = q, variant = v\<rparr>
     }"

definition Electronics_init :: "json list \<Rightarrow> product option" where
  "Electronics_init args =
     (case args of
        [a_id, a_name, a_price, a_quantity, a_warranty, a_brand] \<Rightarrow>
          do {
            w \<leftarrow> as_int a_warranty;
            b \<leftarrow> as_str a_brand;
            Product_init a_id a_name a_price a_quantity (Electronics w b)
          }
      | _ \<Rightarrow> None)"

definition Grocery_init :: "json list \<Rightarrow> product option" where
  "Grocery_init args =
     (case args of
        [a_id, a_name, a_price, a_quantity, a_expiry] \<Rightarrow>
          do {
            e \<leftarrow> as_str a_expiry;
            Product_init a_id a_name a_price a_quantity (Grocery e)
          }
      | _ \<Rightarrow> None)"

definition Clothing_init :: "json list \<Rightarrow> product option" where
  "Clothing_init args =
     (case args of
        [a_id, a_name, a_price, a_quantity, a_size, a_material] \<Rightarrow>
          do {
            s \<leftarrow> as_str a_size;
            m \<leftarrow> as_str a_material;
            Product_init a_id a_name a_price a_quantity (Clothing s m)
          }
      | _ \<Rightarrow> None)"

definition Product_params :: "string list" where
  "Product_params = [''product_id'', ''name'', ''price'', ''quantity_in_stock'']"

text \<open>
  \<open>_create_product_from_dict\<close>: \<open>Some (Inl e)\<close> when the program raises \<open>e\<close>,
  \<open>Some (Inr p)\<close> when it builds \<open>p\<close>, \<open>None\<close> when it builds a product with a field of
  another type than this model's.
\<close>

definition create_product_from_dict :: "json \<Rightarrow> (string \<times> json) list \<Rightarrow> (exn + product) option" where
  "create_product_from_dict cls_name data =
     (if cls_name = JStr ''Electronics'' then
        (case call_kwargs (Product_params @ [''warranty_years'', ''brand'']) data of
           Inl e \<Rightarrow> Some (Inl e)
         | Inr args \<Rightarrow> map_option Inr (Electronics_init args))
      else if cls_name = JStr ''Grocery'' then
        (case call_kwargs (Product_params @ [''expiry_date'']) data of
           Inl e \<Rightarrow> Some (Inl e)
         | Inr args \<Rightarrow> map_option Inr (Grocery_init args))
      else if cls_name = JStr ''Clothing'' then
        (case call_kwargs (Product_params @ [''size'', ''material'']) data of
           Inl e \<Rightarrow> Some (Inl e)
         | Inr args \<Rightarrow> map_option Inr (Clothing_init args))
      else Some (Inl (Exn InvalidProductDataError (Unknown_product_type cls_name))))"

text \<open>
  The body of the loop of \<open>load_from_file\<close>, over the items still to come: the exception
  that ends it, if any, and the inventory as the loop leaves it.
\<close>

fun load_items :: "inventory \<Rightarrow> json list \<Rightarrow> (exn option \<times> inventory) option" where
  "load_items self [] = Some (None, self)"
| "load_items self (item # items) =
     (case pop_type item of
        Inl e \<Rightarrow> Some (Some e, self)
      | Inr (cls_name, data) \<Rightarrow>
          (case create_product_from_dict cls_name data of
             None \<Rightarrow> None
           | Some (Inl e) \<Rightarrow> Some (Some e, self)
           | Some (Inr p) \<Rightarrow>
               load_items (self\<lparr>products := AList.update (product_id p) p (products self)\<rparr>) items))"

text \<open>The \<open>try\<close> block.\<close>

definition load_body :: "inventory \<Rightarrow> exn + json \<Rightarrow> (exn option \<times> inventory) option" where
  "load_body self file =
     (case file of
        Inl e \<Rightarrow> Some (Some e, self)
      | Inr data \<Rightarrow>
          (case iterate data of
             Inl e \<Rightarrow> Some (Some e, self)
           | Inr items \<Rightarrow> load_items self items))"

text \<open>
  \<open>load_from_file\<close>: \<open>except Exception as e\<close> catches whatever the block raises and
  raises \<open>InvalidProductDataError(f"Error loading data: {e}")\<close> in its place.
\<close>

definition load_from_file :: "inventory \<Rightarrow> exn + json \<Rightarrow> (exn option \<times> inventory) option" where
  "load_from_file self file =
     map_option
       (\<lambda>(r, self').
          (case r of
             None \<Rightarrow> None
           | Some e \<Rightarrow> Some (Exn InvalidProductDataError (Error_loading_data (msg e))),
           self'))
       (load_body self file)"

section \<open>Loading, with values of any type\<close>

text \<open>
  \<open>load_from_file\<close> does not look at the types of the values it reads, and the constructors
  store any value. The model above works on the typed store of the other methods and has no
  result once an object gets a field of another type. The model of this section is the same
  method on a store that holds the objects as Python does, every attribute any value of the
  document: it has a result for every document, and it agrees with the model above wherever
  that one has a result.
\<close>

datatype pyvariant =
    PyElectronics json json
  | PyGrocery json
  | PyClothing json json

record pyproduct =
  py_product_id :: json
  py_name :: json
  py_price :: json
  py_quantity_in_stock :: json
  py_variant :: pyvariant

text \<open>
  A call of a constructor with positional arguments: it stores them, and it raises
  \<open>TypeError\<close> when their number is not the number of the parameters.
\<close>

fun Electronics_call :: "json list \<Rightarrow> exn + pyproduct" where
  "Electronics_call [a_id, a_name, a_price, a_quantity, a_warranty, a_brand] =
     Inr \<lparr>py_product_id = a_id, py_name = a_name, py_price = a_price,
          py_quantity_in_stock = a_quantity,
          py_variant = PyElectronics a_warranty a_brand\<rparr>"
| "Electronics_call _ = Inl (Exn TypeError Library_text)"

fun Grocery_call :: "json list \<Rightarrow> exn + pyproduct" where
  "Grocery_call [a_id, a_name, a_price, a_quantity, a_expiry] =
     Inr \<lparr>py_product_id = a_id, py_name = a_name, py_price = a_price,
          py_quantity_in_stock = a_quantity,
          py_variant = PyGrocery a_expiry\<rparr>"
| "Grocery_call _ = Inl (Exn TypeError Library_text)"

fun Clothing_call :: "json list \<Rightarrow> exn + pyproduct" where
  "Clothing_call [a_id, a_name, a_price, a_quantity, a_size, a_material] =
     Inr \<lparr>py_product_id = a_id, py_name = a_name, py_price = a_price,
          py_quantity_in_stock = a_quantity,
          py_variant = PyClothing a_size a_material\<rparr>"
| "Clothing_call _ = Inl (Exn TypeError Library_text)"

text \<open>\<open>_create_product_from_dict\<close>, line by line as above.\<close>

definition create_product_from_dict_untyped :: "json \<Rightarrow> (string \<times> json) list \<Rightarrow> exn + pyproduct" where
  "create_product_from_dict_untyped cls_name data =
     (if cls_name = JStr ''Electronics'' then
        (case call_kwargs (Product_params @ [''warranty_years'', ''brand'']) data of
           Inl e \<Rightarrow> Inl e
         | Inr args \<Rightarrow> Electronics_call args)
      else if cls_name = JStr ''Grocery'' then
        (case call_kwargs (Product_params @ [''expiry_date'']) data of
           Inl e \<Rightarrow> Inl e
         | Inr args \<Rightarrow> Grocery_call args)
      else if cls_name = JStr ''Clothing'' then
        (case call_kwargs (Product_params @ [''size'', ''material'']) data of
           Inl e \<Rightarrow> Inl e
         | Inr args \<Rightarrow> Clothing_call args)
      else Inl (Exn InvalidProductDataError (Unknown_product_type cls_name)))"

text \<open>
  The keys of \<open>self._products\<close>. \<open>None\<close>, booleans, numbers and strings can be keys; a list
  or a dictionary cannot, and \<open>self._products[product._product_id] = product\<close> raises
  \<open>TypeError\<close> for it. Keys are compared with \<open>==\<close>, under which \<open>True\<close>, \<open>1\<close> and
  \<open>1.0\<close> are the same key.
\<close>

datatype key = KNone | KNum rat | KStr string

fun dict_key :: "json \<Rightarrow> exn + key" where
  "dict_key JNull = Inr KNone"
| "dict_key (JBool b) = Inr (KNum (if b then 1 else 0))"
| "dict_key (JNum (PyInt n)) = Inr (KNum (of_int n))"
| "dict_key (JNum (PyFloat r)) = Inr (KNum r)"
| "dict_key (JStr s) = Inr (KStr s)"
| "dict_key (JArr xs) = Inl (Exn TypeError Library_text)"
| "dict_key (JObj kvs) = Inl (Exn TypeError Library_text)"

record pyinventory =
  py_products :: "(key \<times> pyproduct) list"

text \<open>The loop, the \<open>try\<close> block and the handler of \<open>load_from_file\<close>.\<close>

fun load_items_untyped :: "pyinventory \<Rightarrow> json list \<Rightarrow> exn option \<times> pyinventory" where
  "load_items_untyped self [] = (None, self)"
| "load_items_untyped self (item # items) =
     (case pop_type item of
        Inl e \<Rightarrow> (Some e, self)
      | Inr (cls_name, data) \<Rightarrow>
          (case create_product_from_dict_untyped cls_name data of
             Inl e \<Rightarrow> (Some e, self)
           | Inr p \<Rightarrow>
               (case dict_key (py_product_id p) of
                  Inl e \<Rightarrow> (Some e, self)
                | Inr k \<Rightarrow>
                    load_items_untyped (self\<lparr>py_products := AList.update k p (py_products self)\<rparr>) items)))"

definition load_body_untyped :: "pyinventory \<Rightarrow> exn + json \<Rightarrow> exn option \<times> pyinventory" where
  "load_body_untyped self file =
     (case file of
        Inl e \<Rightarrow> (Some e, self)
      | Inr data \<Rightarrow>
          (case iterate data of
             Inl e \<Rightarrow> (Some e, self)
           | Inr items \<Rightarrow> load_items_untyped self items))"

definition load_from_file_untyped :: "pyinventory \<Rightarrow> exn + json \<Rightarrow> exn option \<times> pyinventory" where
  "load_from_file_untyped self file =
     (case load_body_untyped self file of
        (None, self') \<Rightarrow> (None, self')
      | (Some e, self') \<Rightarrow> (Some (Exn InvalidProductDataError (Error_loading_data (msg e))), self'))"

text \<open>A typed product and a typed store, as the objects and the dictionary that Python holds.\<close>

definition untyped :: "product \<Rightarrow> pyproduct" where
  "untyped p =
     \<lparr>py_product_id = JStr (product_id p), py_name = JStr (name p), py_price = JNum (price p),
      py_quantity_in_stock = JNum (PyInt (quantity_in_stock p)),
      py_variant =
        (case variant p of
           Electronics w b \<Rightarrow> PyElectronics (JNum (PyInt w)) (JStr b)
         | Grocery e \<Rightarrow> PyGrocery (JStr e)
         | Clothing s m \<Rightarrow> PyClothing (JStr s) (JStr m))\<rparr>"

definition untyped_inventory :: "inventory \<Rightarrow> pyinventory" where
  "untyped_inventory self = \<lparr>py_products = map (\<lambda>(k, p). (KStr k, untyped p)) (products self)\<rparr>"

section \<open>Dates for the examples\<close>

text \<open>
  An instance of the \<open>strptime\<close> parameter, used where a theorem is evaluated on concrete
  products: it reads the form \<open>YYYY-MM-DD\<close> with all ten characters, of a date of the
  calendar, as year, month and day. (The library's own parser also takes a month or a day
  of one digit.) Dates are compared as Python compares them, by year, then month, then day.
\<close>

definition digit :: "char \<Rightarrow> nat option" where
  "digit c = (if 48 \<le> (of_char c :: nat) \<and> (of_char c :: nat) \<le> 57 then Some (of_char c - 48) else None)"

definition leap_year :: "nat \<Rightarrow> bool" where
  "leap_year y = (y mod 4 = 0 \<and> (y mod 100 \<noteq> 0 \<or> y mod 400 = 0))"

definition days_in_month :: "nat \<Rightarrow> nat \<Rightarrow> nat" where
  "days_in_month y m =
     (if m = 2 then (if leap_year y then 29 else 28)
      else if m = 4 \<or> m = 6 \<or> m = 9 \<or> m = 11 then 30 else 31)"

definition iso_date :: "string \<Rightarrow> (nat \<times> nat \<times> nat) option" where
  "iso_date s =
     (case s of
        [y1, y2, y3, y4, h1, m1, m2, h2, d1, d2] \<Rightarrow>
          (if h1 = CHR ''-'' \<and> h2 = CHR ''-'' then
             (case those (map digit [y1, y2, y3, y4, m1, m2, d1, d2]) of
                Some [a, b, c, d, e, f, g, h] \<Rightarrow>
                  (let y = 1000 * a + 100 * b + 10 * c + d; m = 10 * e + f; dd = 10 * g + h
                   in if 1 \<le> y \<and> 1 \<le> m \<and> m \<le> 12 \<and> 1 \<le> dd \<and> dd \<le> days_in_month y m
                      then Some (y, m, dd) else None)
              | _ \<Rightarrow> None)
           else None)
      | _ \<Rightarrow> None)"

section \<open>Properties of the stores the program builds\<close>

text \<open>
  A \<open>dict\<close> has each key once, and every assignment to \<open>self._products\<close> in the program
  stores a product under its own \<open>_product_id\<close>.
\<close>

definition dict_ok :: "inventory \<Rightarrow> bool" where
  "dict_ok self =
     (distinct (map fst (products self)) \<and> list_all (\<lambda>(k, p). product_id p = k) (products self))"

definition stock_nonneg :: "inventory \<Rightarrow> bool" where
  "stock_nonneg self = list_all (\<lambda>(k, p). 0 \<le> quantity_in_stock p) (products self)"

text \<open>\<open>isinstance(p, Grocery)\<close>\<close>

definition is_Grocery :: "product \<Rightarrow> bool" where
  "is_Grocery p = (case variant p of Grocery e \<Rightarrow> True | _ \<Rightarrow> False)"

text \<open>
  What the specification calls expired on a date: a \<open>Grocery\<close> product whose
  \<open>expiry_date\<close> is a date strictly before it.
\<close>

definition expiry_before :: "(string \<Rightarrow> 'd option) \<Rightarrow> ('d::linorder) \<Rightarrow> product \<Rightarrow> bool" where
  "expiry_before strptime today p =
     (case variant p of
        Grocery e \<Rightarrow> (case strptime e of Some d \<Rightarrow> d < today | None \<Rightarrow> False)
      | _ \<Rightarrow> False)"

text \<open>Every \<open>expiry_date\<close> in the store is a date, as the data model has it.\<close>

definition expiry_dates_ok :: "(string \<Rightarrow> 'd option) \<Rightarrow> inventory \<Rightarrow> bool" where
  "expiry_dates_ok strptime self =
     list_all (\<lambda>(k, p). case variant p of Grocery e \<Rightarrow> strptime e \<noteq> None | _ \<Rightarrow> True) (products self)"

text \<open>
  What the body of the loop of \<open>load_from_file\<close> does with one item: the product it stores,
  if it stores one, and the exception it raises, if it raises one.
\<close>

definition built :: "json \<Rightarrow> product option" where
  "built item =
     (case pop_type item of
        Inl e \<Rightarrow> None
      | Inr (cls_name, data) \<Rightarrow>
          (case create_product_from_dict cls_name data of
             Some (Inr p) \<Rightarrow> Some p
           | _ \<Rightarrow> None))"

definition raised :: "json \<Rightarrow> exn option" where
  "raised item =
     (case pop_type item of
        Inl e \<Rightarrow> Some e
      | Inr (cls_name, data) \<Rightarrow>
          (case create_product_from_dict cls_name data of
             Some (Inl e) \<Rightarrow> Some e
           | _ \<Rightarrow> None))"

text \<open>\<open>self._products[product._product_id] = product\<close>, for the products of a list in turn.\<close>

definition insert_all :: "product list \<Rightarrow> inventory \<Rightarrow> inventory" where
  "insert_all ps self = self\<lparr>products := fold (\<lambda>p. AList.update (product_id p) p) ps (products self)\<rparr>"

text \<open>
  The record format of the specification: the members that a record with a given tag has
  besides \<open>type\<close>. Two lists of keys are the same keys when each key of one is in the other.
\<close>

definition record_fields :: "json \<Rightarrow> string list option" where
  "record_fields tag =
     (if tag = JStr ''Electronics'' then
        Some [''product_id'', ''name'', ''price'', ''quantity_in_stock'', ''warranty_years'', ''brand'']
      else if tag = JStr ''Grocery'' then
        Some [''product_id'', ''name'', ''price'', ''quantity_in_stock'', ''expiry_date'']
      else if tag = JStr ''Clothing'' then
        Some [''product_id'', ''name'', ''price'', ''quantity_in_stock'', ''size'', ''material'']
      else None)"

definition same_keys :: "string list \<Rightarrow> string list \<Rightarrow> bool" where
  "same_keys xs ys = (list_all (\<lambda>k. k \<in> set ys) xs \<and> list_all (\<lambda>k. k \<in> set xs) ys)"

text \<open>
  What the body of the loop does with one item up to the assignment: the key and the object
  to store, or the exception raised.
\<close>

definition load_item :: "json \<Rightarrow> exn + key \<times> pyproduct" where
  "load_item item =
     (case pop_type item of
        Inl e \<Rightarrow> Inl e
      | Inr (cls_name, data) \<Rightarrow>
          (case create_product_from_dict_untyped cls_name data of
             Inl e \<Rightarrow> Inl e
           | Inr p \<Rightarrow>
               (case dict_key (py_product_id p) of
                  Inl e \<Rightarrow> Inl e
                | Inr k \<Rightarrow> Inr (k, p))))"

text \<open>
  What \<open>load_from_file\<close> requires of an item, in the terms of the record format: an object
  with a \<open>type\<close> member that is one of the three tags and with exactly the members of that
  tag, whose \<open>product_id\<close> can be a dictionary key. The types of the values are no part
  of it.
\<close>

definition hashable :: "json \<Rightarrow> bool" where
  "hashable v = (case v of JArr xs \<Rightarrow> False | JObj kvs \<Rightarrow> False | _ \<Rightarrow> True)"

definition record_accepted :: "json \<Rightarrow> bool" where
  "record_accepted item =
     (case item of
        JObj kvs \<Rightarrow>
          (case map_of kvs ''type'' of
             None \<Rightarrow> False
           | Some tag \<Rightarrow>
               (case record_fields tag of
                  None \<Rightarrow> False
                | Some fs \<Rightarrow>
                    same_keys (map fst kvs) (''type'' # fs) \<and>
                    (case map_of kvs ''product_id'' of None \<Rightarrow> False | Some v \<Rightarrow> hashable v)))
      | _ \<Rightarrow> False)"

section \<open>Examples\<close>

text \<open>The three products of the fixture of the tests (\<open>sample_inventory\<close>), with a fixed date for the milk.\<close>

definition phone :: product where
  "phone = \<lparr>product_id = ''E001'', name = ''Phone'', price = PyFloat (99999 / 100),
            quantity_in_stock = 10, variant = Electronics 2 ''Apple''\<rparr>"

definition milk :: product where
  "milk = \<lparr>product_id = ''G001'', name = ''Milk'', price = PyFloat (7 / 2),
           quantity_in_stock = 20, variant = Grocery ''2024-06-15''\<rparr>"

definition shirt :: product where
  "shirt = \<lparr>product_id = ''C001'', name = ''Shirt'', price = PyFloat (2999 / 100),
            quantity_in_stock = 15, variant = Clothing ''M'' ''Cotton''\<rparr>"

definition sample_inventory :: inventory where
  "sample_inventory = \<lparr>products = [(''E001'', phone), (''G001'', milk), (''C001'', shirt)]\<rparr>"

text \<open>A store with a product of each subclass, with stocks and prices of zero.\<close>

definition edge_inventory :: inventory where
  "edge_inventory =
     \<lparr>products =
        [(''E001'', phone\<lparr>quantity_in_stock := 0\<rparr>),
         (''G001'', milk\<lparr>price := PyFloat 0\<rparr>),
         (''C001'', shirt\<lparr>price := PyInt 0, quantity_in_stock := 0\<rparr>)]\<rparr>"

text \<open>Groceries that differ in their id and expiry date only.\<close>

definition dated :: "string \<Rightarrow> string \<Rightarrow> product" where
  "dated pid e = milk\<lparr>product_id := pid, variant := Grocery e\<rparr>"

definition dated_inventory :: inventory where
  "dated_inventory =
     \<lparr>products =
        [(''E001'', phone),
         (''G001'', dated ''G001'' ''2024-06-14''),
         (''G002'', dated ''G002'' ''2024-06-15''),
         (''G003'', dated ''G003'' ''2024-06-16''),
         (''C001'', shirt)]\<rparr>"


text \<open>A record with the members of a \<open>Grocery\<close> and values of other types, and the object built from it.\<close>

definition odd_record :: json where
  "odd_record =
     JObj [(''type'', JStr ''Grocery''), (''product_id'', JStr ''G9''), (''name'', JStr ''Milk''),
           (''price'', JStr ''cheap''), (''quantity_in_stock'', JStr ''many''),
           (''expiry_date'', JNum (PyInt 5))]"

definition odd_milk :: pyproduct where
  "odd_milk =
     \<lparr>py_product_id = JStr ''G9'', py_name = JStr ''Milk'', py_price = JStr ''cheap'',
      py_quantity_in_stock = JStr ''many'', py_variant = PyGrocery (JNum (PyInt 5))\<rparr>"

section \<open>Facts about dictionaries\<close>

lemma update_absent: "map_of ps k = None \<Longrightarrow> AList.update k v ps = ps @ [(k, v)]"
  by (induction ps) (auto split: if_splits)

lemma set_update_subset: "set (AList.update k v ps) \<subseteq> insert (k, v) (set ps)"
  by (induction ps) auto

lemma list_all_update:
  "list_all P ps \<Longrightarrow> P (k, v) \<Longrightarrow> list_all P (AList.update k v ps)"
  using set_update_subset [of k v ps] by (auto simp: list_all_iff)

lemma list_all_delete: "list_all P ps \<Longrightarrow> list_all P (AList.delete k ps)"
  by (auto simp: list_all_iff AList.delete_eq)

lemma set_del_each: "set (snd (del_each pids ps)) \<subseteq> set ps"
proof (induction pids arbitrary: ps)
  case Nil
  show ?case by simp
next
  case (Cons pid pids)
  have "set (AList.delete pid ps) \<subseteq> set ps"
    by (auto simp: AList.delete_eq)
  with Cons [of "AList.delete pid ps"] show ?case
    by auto
qed

lemma map_of_list_all: "map_of ps k = Some v \<Longrightarrow> list_all P ps \<Longrightarrow> P (k, v)"
  by (auto simp: list_all_iff dest: map_of_SomeD)

section \<open>The stores the program builds\<close>

text \<open>
  A new \<open>Inventory\<close> has each key once and every product under its own id, and every
  method keeps it so.
\<close>

lemma dict_ok_Inventory: "dict_ok Inventory"
  by (simp add: dict_ok_def Inventory_def)

lemma dict_ok_update:
  assumes "dict_ok self" and "product_id p = k"
  shows "dict_ok (self\<lparr>products := AList.update k p (products self)\<rparr>)"
  using assms by (simp add: dict_ok_def AList.distinct_update list_all_update)

lemma dict_ok_add_product: "dict_ok self \<Longrightarrow> dict_ok (snd (add_product self p))"
  by (simp add: add_product_def dict_ok_update)

lemma dict_ok_remove_product: "dict_ok self \<Longrightarrow> dict_ok (remove_product self pid)"
  by (simp add: remove_product_def dict_ok_def AList.distinct_delete list_all_delete)

lemma dict_ok_sell_product:
  assumes "dict_ok self"
  shows "dict_ok (snd (sell_product self pid q))"
proof (cases "map_of (products self) pid")
  case None
  then show ?thesis using assms by (simp add: sell_product_def)
next
  case (Some p)
  have "product_id p = pid"
    using map_of_list_all [OF Some, of "\<lambda>(k, p). product_id p = k"] assms
    by (simp add: dict_ok_def)
  then have "product_id (snd (sell p q)) = pid"
    by (simp add: sell_def)
  then have "dict_ok (self\<lparr>products := AList.update pid (snd (sell p q)) (products self)\<rparr>)"
    by (rule dict_ok_update [OF assms])
  then show ?thesis
    using Some by (simp add: sell_product_def case_prod_beta)
qed

lemma dict_ok_restock_product:
  assumes "dict_ok self"
  shows "dict_ok (snd (restock_product self pid q))"
proof (cases "map_of (products self) pid")
  case None
  then show ?thesis using assms by (simp add: restock_product_def)
next
  case (Some p)
  have "product_id p = pid"
    using map_of_list_all [OF Some, of "\<lambda>(k, p). product_id p = k"] assms
    by (simp add: dict_ok_def)
  then have "product_id (restock p q) = pid"
    by (simp add: restock_def)
  then have "dict_ok (self\<lparr>products := AList.update pid (restock p q) (products self)\<rparr>)"
    by (rule dict_ok_update [OF assms])
  then show ?thesis
    using Some by (simp add: restock_product_def)
qed

lemma dict_ok_del_each:
  "distinct (map fst ps) \<Longrightarrow> list_all P ps \<Longrightarrow>
   distinct (map fst (snd (del_each pids ps))) \<and> list_all P (snd (del_each pids ps))"
proof (induction pids arbitrary: ps)
  case Nil
  then show ?case by simp
next
  case (Cons k ks)
  have "distinct (map fst (AList.delete k ps))" "list_all P (AList.delete k ps)"
    using Cons.prems by (simp_all add: AList.distinct_delete list_all_delete)
  then show ?case
    using Cons.IH Cons.prems by simp
qed

lemma dict_ok_remove_expired:
  assumes "dict_ok self"
  shows "dict_ok (snd (remove_expired_products strptime clock self))"
proof (cases "to_remove strptime clock 0 (products self)")
  case (Inl e)
  then show ?thesis using assms by (simp add: remove_expired_products_def)
next
  case (Inr pids)
  then show ?thesis
    using assms dict_ok_del_each [of "products self" "\<lambda>(k, p). product_id p = k" pids]
    by (simp add: remove_expired_products_def dict_ok_def case_prod_beta)
qed

lemma dict_ok_insert_all: "dict_ok self \<Longrightarrow> dict_ok (insert_all ps self)"
proof (induction ps arbitrary: self)
  case Nil
  then show ?case by (simp add: insert_all_def)
next
  case (Cons p ps)
  have "dict_ok (self\<lparr>products := AList.update (product_id p) p (products self)\<rparr>)"
    using Cons.prems by (simp add: dict_ok_update)
  then have "dict_ok (insert_all ps (self\<lparr>products := AList.update (product_id p) p (products self)\<rparr>))"
    by (rule Cons.IH)
  then show ?case by (simp add: insert_all_def)
qed

lemma dict_ok_lookup:
  assumes "dict_ok self"
  shows "list_all (\<lambda>(k, p). map_of (products self) k = Some p \<and> product_id p = k) (products self)"
  using assms by (auto simp: dict_ok_def list_all_iff)

section \<open>Selling and restocking\<close>

text \<open>
  C1. For a product id present in the store, selling a quantity that does not exceed the
  product's stock succeeds and the store then holds the product with its stock reduced by
  exactly that quantity (the full stock leaves zero); selling more than the stock raises
  \<open>OutOfStockError\<close> and the store, so the stock too, is as before.
\<close>

theorem sell_product_stock:
  assumes "map_of (products self) pid = Some p"
  shows "(q \<le> quantity_in_stock p \<longrightarrow>
            fst (sell_product self pid q) = None \<and>
            map_of (products (snd (sell_product self pid q))) pid =
              Some (p\<lparr>quantity_in_stock := quantity_in_stock p - q\<rparr>)) \<and>
         (q = quantity_in_stock p \<longrightarrow>
            map_option quantity_in_stock (map_of (products (snd (sell_product self pid q))) pid) = Some 0) \<and>
         (q > quantity_in_stock p \<longrightarrow>
            sell_product self pid q =
              (Some (Exn OutOfStockError (Not_enough_stock_for_product (name p))), self))"
  using assms
  by (simp add: sell_product_def sell_def AList.update_conv' AList.update_triv)

theorem sell_product_stock_witness:
  "map_of (products sample_inventory) ''E001'' = Some phone \<and>
   sell_product sample_inventory ''E001'' 2 =
     (None, \<lparr>products = [(''E001'', phone\<lparr>quantity_in_stock := 8\<rparr>), (''G001'', milk), (''C001'', shirt)]\<rparr>)"
  using sell_product_stock [of sample_inventory "''E001''" phone 2]
  by (simp add: sample_inventory_def phone_def sell_product_def sell_def)

text \<open>
  C8. \<open>restock\<close> adds the amount to the stock whatever the amount is: a negative amount
  lowers the stock, below zero when it exceeds the stock, and through the store the call
  raises nothing.
\<close>

theorem restock_unconditional:
  "restock p a = p\<lparr>quantity_in_stock := quantity_in_stock p + a\<rparr> \<and>
   (a < 0 \<longrightarrow> quantity_in_stock (restock p a) < quantity_in_stock p) \<and>
   (a < - quantity_in_stock p \<longrightarrow> quantity_in_stock (restock p a) < 0) \<and>
   (map_of (products self) pid = Some p \<longrightarrow>
      restock_product self pid a =
        (None, self\<lparr>products := AList.update pid (p\<lparr>quantity_in_stock := quantity_in_stock p + a\<rparr>) (products self)\<rparr>))"
  by (simp add: restock_def restock_product_def)

theorem restock_unconditional_witness:
  "(-11 :: int) < - quantity_in_stock phone \<and>
   quantity_in_stock (restock phone (-11)) = -1 \<and>
   map_of (products sample_inventory) ''E001'' = Some phone \<and>
   restock_product sample_inventory ''E001'' (-11) =
     (None, \<lparr>products = [(''E001'', phone\<lparr>quantity_in_stock := -1\<rparr>), (''G001'', milk), (''C001'', shirt)]\<rparr>)"
  using restock_unconditional [of phone "-11" sample_inventory "''E001''"]
  by (simp add: sample_inventory_def phone_def restock_def)

text \<open>
  C9, as stated, fails on a product whose stock is below the negative quantity sold: the
  guard \<open>quantity > self._quantity_in_stock\<close> holds and \<open>OutOfStockError\<close> is raised.
\<close>

theorem negative_sell_counterexample:
  "sell (phone\<lparr>quantity_in_stock := -10\<rparr>) (-5) =
     (Some (Exn OutOfStockError (Not_enough_stock_for_product ''Phone'')), phone\<lparr>quantity_in_stock := -10\<rparr>)"
  by (simp add: sell_def phone_def)

text \<open>
  C9, amended. For a negative quantity that does not exceed the stock (so for every negative
  quantity when the stock is not negative), \<open>sell\<close> raises nothing and sets the stock to
  the stock minus the quantity, which is more than before; so does the store's
  \<open>sell_product\<close>.
\<close>

theorem negative_sell_increases_stock:
  assumes "q < 0" and "q \<le> quantity_in_stock p"
  shows "sell p q = (None, p\<lparr>quantity_in_stock := quantity_in_stock p - q\<rparr>) \<and>
         quantity_in_stock p < quantity_in_stock (snd (sell p q)) \<and>
         (map_of (products self) pid = Some p \<longrightarrow>
            sell_product self pid q =
              (None, self\<lparr>products := AList.update pid (p\<lparr>quantity_in_stock := quantity_in_stock p - q\<rparr>) (products self)\<rparr>))"
  using assms by (simp add: sell_def sell_product_def)

theorem negative_sell_increases_stock_witness:
  "(-5 :: int) < 0 \<and> -5 \<le> quantity_in_stock phone \<and>
   sell phone (-5) = (None, phone\<lparr>quantity_in_stock := 15\<rparr>)"
  using negative_sell_increases_stock [of "-5" phone]
  by (simp add: phone_def)

section \<open>Adding\<close>

text \<open>
  C3. \<open>add_product\<close> on a product whose id is no key of the store inserts it, after the
  products already there, so that \<open>list_all_products\<close> then contains it; on a product whose
  id is a key already it raises \<open>DuplicateProductIDError\<close> and the store, with the product
  stored under that id, is as before.
\<close>

theorem add_product_new_or_duplicate:
  "(map_of (products self) (product_id p) = None \<longrightarrow>
      add_product self p = (None, self\<lparr>products := products self @ [(product_id p, p)]\<rparr>) \<and>
      list_all_products (snd (add_product self p)) = list_all_products self @ [p] \<and>
      p \<in> set (list_all_products (snd (add_product self p)))) \<and>
   (map_of (products self) (product_id p) = Some p0 \<longrightarrow>
      add_product self p = (Some (Exn DuplicateProductIDError Product_ID_already_exists), self) \<and>
      map_of (products (snd (add_product self p))) (product_id p) = Some p0)"
  by (simp add: add_product_def list_all_products_def update_absent)

theorem add_product_new_or_duplicate_witness:
  "map_of (products Inventory) (product_id phone) = None \<and>
   add_product Inventory phone = (None, \<lparr>products = [(''E001'', phone)]\<rparr>) \<and>
   map_of (products sample_inventory) (product_id (phone\<lparr>name := ''Another Phone''\<rparr>)) = Some phone \<and>
   add_product sample_inventory (phone\<lparr>name := ''Another Phone''\<rparr>) =
     (Some (Exn DuplicateProductIDError Product_ID_already_exists), sample_inventory)"
  using add_product_new_or_duplicate [of Inventory phone phone]
    add_product_new_or_duplicate [of sample_inventory "phone\<lparr>name := ''Another Phone''\<rparr>" phone]
  by (simp add: Inventory_def sample_inventory_def phone_def)

section \<open>An id that is not in the store\<close>

text \<open>
  C4, as stated, fails: the exception raised for an absent id is an \<open>InventoryError\<close>, the
  base class of the program's exceptions, so its class is not a kind of its own: an
  \<open>OutOfStockError\<close> and a \<open>DuplicateProductIDError\<close> are instances of it too.
\<close>

theorem absent_id_counterexample:
  "sell_product sample_inventory ''INVALID'' 1 = (Some (Exn InventoryError Product_not_found), sample_inventory) \<and>
   cls (Exn InventoryError Product_not_found) = InventoryError \<and>
   isinstance (Exn OutOfStockError (Not_enough_stock_for_product ''Phone'')) InventoryError \<and>
   isinstance (Exn DuplicateProductIDError Product_ID_already_exists) InventoryError"
  by (simp add: sell_product_def sample_inventory_def isinstance_def)

text \<open>
  C4, amended. \<open>sell_product\<close> and \<open>restock_product\<close> with an id that is no key of the
  store raise \<open>InventoryError("Product not found.")\<close>, which reaches the caller as it is,
  and leave the store as it was.
\<close>

theorem absent_id_raises_InventoryError:
  assumes "map_of (products self) pid = None"
  shows "sell_product self pid q = (Some (Exn InventoryError Product_not_found), self) \<and>
         restock_product self pid q = (Some (Exn InventoryError Product_not_found), self)"
  using assms by (simp add: sell_product_def restock_product_def)

theorem absent_id_raises_InventoryError_witness:
  "map_of (products sample_inventory) ''INVALID'' = None \<and>
   sell_product sample_inventory ''INVALID'' 1 = (Some (Exn InventoryError Product_not_found), sample_inventory) \<and>
   restock_product sample_inventory ''INVALID'' 1 = (Some (Exn InventoryError Product_not_found), sample_inventory)"
  using absent_id_raises_InventoryError [of sample_inventory "''INVALID''" 1]
  by (simp add: sample_inventory_def)

section \<open>Stock that is not negative\<close>

text \<open>
  C5, as stated, fails: restocking by a negative amount takes a stock below zero.
\<close>

theorem stock_nonneg_counterexample:
  "stock_nonneg sample_inventory \<and>
   fst (restock_product sample_inventory ''E001'' (-11)) = None \<and>
   \<not> stock_nonneg (snd (restock_product sample_inventory ''E001'' (-11)))"
  by (simp add: stock_nonneg_def sample_inventory_def restock_product_def restock_def
      phone_def milk_def shirt_def)

text \<open>
  C5, amended. In a store where no product has a negative stock, none has one after
  \<open>remove_product\<close>, after \<open>sell_product\<close> (whatever the quantity), after
  \<open>remove_expired_products\<close>, after \<open>restock_product\<close> with an amount that is not
  negative, and after \<open>add_product\<close> of a product whose own stock is not negative.
\<close>

theorem stock_nonneg_preserved:
  assumes "stock_nonneg self"
  shows "(0 \<le> quantity_in_stock p \<longrightarrow> stock_nonneg (snd (add_product self p))) \<and>
         stock_nonneg (remove_product self pid) \<and>
         stock_nonneg (snd (sell_product self pid q)) \<and>
         (0 \<le> q \<longrightarrow> stock_nonneg (snd (restock_product self pid q))) \<and>
         stock_nonneg (snd (remove_expired_products strptime clock self))"
proof -
  have ps: "list_all (\<lambda>(k, p). 0 \<le> quantity_in_stock p) (products self)"
    using assms by (simp add: stock_nonneg_def)
  have add: "0 \<le> quantity_in_stock p \<longrightarrow> stock_nonneg (snd (add_product self p))"
    using ps by (simp add: add_product_def stock_nonneg_def list_all_update)
  have rem: "stock_nonneg (remove_product self pid)"
    using ps by (simp add: remove_product_def stock_nonneg_def list_all_delete)
  have sell: "stock_nonneg (snd (sell_product self pid q))"
  proof (cases "map_of (products self) pid")
    case None
    then show ?thesis using assms by (simp add: sell_product_def)
  next
    case (Some p0)
    then have "0 \<le> quantity_in_stock p0"
      using map_of_list_all [OF Some ps] by simp
    then show ?thesis
      using Some ps by (simp add: sell_product_def sell_def stock_nonneg_def list_all_update)
  qed
  have rest: "0 \<le> q \<longrightarrow> stock_nonneg (snd (restock_product self pid q))"
  proof (cases "map_of (products self) pid")
    case None
    then show ?thesis using assms by (simp add: restock_product_def)
  next
    case (Some p0)
    then have "0 \<le> quantity_in_stock p0"
      using map_of_list_all [OF Some ps] by simp
    then show ?thesis
      using Some ps by (simp add: restock_product_def restock_def stock_nonneg_def list_all_update)
  qed
  have exp: "stock_nonneg (snd (remove_expired_products strptime clock self))"
  proof (cases "to_remove strptime clock 0 (products self)")
    case (Inl e)
    then show ?thesis using assms by (simp add: remove_expired_products_def)
  next
    case (Inr pids)
    have "set (snd (del_each pids (products self))) \<subseteq> set (products self)"
      by (rule set_del_each)
    then have "list_all (\<lambda>(k, p). 0 \<le> quantity_in_stock p) (snd (del_each pids (products self)))"
      using ps by (auto simp: list_all_iff)
    then show ?thesis
      using Inr by (simp add: remove_expired_products_def stock_nonneg_def case_prod_beta)
  qed
  from add rem sell rest exp show ?thesis by blast
qed

theorem stock_nonneg_preserved_witness:
  "stock_nonneg sample_inventory \<and>
   stock_nonneg (snd (sell_product sample_inventory ''E001'' 10)) \<and>
   stock_nonneg (snd (restock_product sample_inventory ''E001'' 5)) \<and>
   stock_nonneg (remove_product sample_inventory ''E001'')"
proof -
  have h: "stock_nonneg sample_inventory"
    by (simp add: stock_nonneg_def sample_inventory_def phone_def milk_def shirt_def)
  show ?thesis
    using h stock_nonneg_preserved [OF h, of phone "''E001''" 10 iso_date "\<lambda>n. (2024, 6, 15)"]
      stock_nonneg_preserved [OF h, of phone "''E001''" 5 iso_date "\<lambda>n. (2024, 6, 15)"]
    by simp
qed

section \<open>Saving, then loading\<close>

lemma create_product_from_dict_to_dict:
  "create_product_from_dict (JStr (class_name p)) (AList.delete ''type'' (to_dict p)) = Some (Inr p)"
  by (cases "variant p")
     (simp_all add: create_product_from_dict_def to_dict_def call_kwargs_def Product_params_def
        Electronics_init_def Grocery_init_def Clothing_init_def Product_init_def)

lemma pop_type_to_dict:
  "pop_type (JObj (to_dict p)) = Inr (JStr (class_name p), AList.delete ''type'' (to_dict p))"
  by (simp add: to_dict_def)

lemma load_items_to_dict:
  "load_items acc (map (\<lambda>p. JObj (to_dict p)) ps) =
     Some (None, acc\<lparr>products := fold (\<lambda>p. AList.update (product_id p) p) ps (products acc)\<rparr>)"
proof (induction ps arbitrary: acc)
  case Nil
  show ?case by simp
next
  case (Cons p ps)
  show ?case
    by (simp del: class_name.simps pop_type.simps add: pop_type_to_dict create_product_from_dict_to_dict Cons)
qed

lemma fold_update_fresh:
  "distinct (map fst (acc @ kps)) \<Longrightarrow> list_all (\<lambda>(k, p). product_id p = k) kps \<Longrightarrow>
   fold (\<lambda>p. AList.update (product_id p) p) (map snd kps) acc = acc @ kps"
proof (induction kps arbitrary: acc)
  case Nil
  show ?case by simp
next
  case (Cons kp kps)
  obtain k p where kp: "kp = (k, p)" by (cases kp)
  have pk: "product_id p = k" using Cons.prems(2) kp by simp
  have "map_of acc k = None"
    using Cons.prems(1) kp by (auto simp: map_of_eq_None_iff)
  then have upd: "AList.update k p acc = acc @ [(k, p)]"
    by (rule update_absent)
  have d: "distinct (map fst ((acc @ [(k, p)]) @ kps))"
    using Cons.prems(1) kp by simp
  have "fold (\<lambda>p. AList.update (product_id p) p) (map snd kps) (acc @ [(k, p)]) = (acc @ [(k, p)]) @ kps"
    using Cons.IH [OF d] Cons.prems(2) by simp
  then show ?case
    using kp pk upd by simp
qed

lemma fold_update_own:
  "list_all (\<lambda>(k, p). map_of ps k = Some p \<and> product_id p = k) qs \<Longrightarrow>
   fold (\<lambda>p. AList.update (product_id p) p) (map snd qs) ps = ps"
  by (induction qs) (auto simp: AList.update_triv)

text \<open>
  C2. Round trip: for a store with any products of the three subclasses, loading what
  \<open>save_to_file\<close> wrote raises nothing and gives the store itself: the same products, each
  of its subclass, with every field as it was, zero stocks and zero prices included. This
  holds when the file is loaded into a new \<open>Inventory\<close> and when it is loaded into the
  store that was saved.
\<close>

theorem load_save_round_trip:
  assumes "dict_ok self"
  shows "load_from_file Inventory (Inr (save_to_file self)) = Some (None, self) \<and>
         load_from_file self (Inr (save_to_file self)) = Some (None, self)"
proof -
  have new: "fold (\<lambda>p. AList.update (product_id p) p) (map snd (products self)) [] = [] @ products self"
    using assms by (intro fold_update_fresh) (simp_all add: dict_ok_def)
  have same: "fold (\<lambda>p. AList.update (product_id p) p) (map snd (products self)) (products self) =
      products self"
    using dict_ok_lookup [OF assms] by (rule fold_update_own)
  show ?thesis
    using new same
    by (simp del: map_map add: load_from_file_def load_body_def save_to_file_def load_items_to_dict Inventory_def)
qed

theorem load_save_round_trip_witness:
  "dict_ok edge_inventory \<and>
   load_from_file Inventory (Inr (save_to_file edge_inventory)) = Some (None, edge_inventory) \<and>
   map class_name (list_all_products edge_inventory) = [''Electronics'', ''Grocery'', ''Clothing'']"
proof -
  have h: "dict_ok edge_inventory"
    by (simp add: dict_ok_def edge_inventory_def phone_def milk_def shirt_def)
  show ?thesis
    using h load_save_round_trip [OF h]
    by (simp add: edge_inventory_def list_all_products_def phone_def milk_def shirt_def)
qed

section \<open>Removing expired products\<close>

lemma to_remove_keys:
  "to_remove strptime clock n ps = Inr pids \<Longrightarrow> k \<in> set pids \<Longrightarrow>
   \<exists>p. (k, p) \<in> set ps \<and> is_Grocery p"
proof (induction ps arbitrary: n pids)
  case Nil
  then show ?case by simp
next
  case (Cons kp ps)
  obtain k' p' where kp: "kp = (k', p')" by (cases kp)
  show ?case
  proof (cases "variant p'")
    case (Grocery e)
    then obtain b qs where b: "is_expired strptime (clock n) e = Inr b"
      and qs: "to_remove strptime clock (Suc n) ps = Inr qs"
      and pids: "pids = (if b then k' # qs else qs)"
      using Cons.prems(1) kp by (auto split: sum.splits)
    show ?thesis
    proof (cases "k \<in> set qs")
      case True
      then show ?thesis using Cons.IH [OF qs] by auto
    next
      case False
      then have "k = k'" using pids Cons.prems(2) by (auto split: if_splits)
      then show ?thesis using kp Grocery by (auto simp: is_Grocery_def)
    qed
  next
    case (Electronics w b)
    then have "to_remove strptime clock n ps = Inr pids"
      using Cons.prems(1) kp by simp
    then show ?thesis using Cons.IH Cons.prems(2) by auto
  next
    case (Clothing s m)
    then have "to_remove strptime clock n ps = Inr pids"
      using Cons.prems(1) kp by simp
    then show ?thesis using Cons.IH Cons.prems(2) by auto
  qed
qed

lemma to_remove_distinct:
  "to_remove strptime clock n ps = Inr pids \<Longrightarrow> distinct (map fst ps) \<Longrightarrow> distinct pids"
proof (induction ps arbitrary: n pids)
  case Nil
  then show ?case by simp
next
  case (Cons kp ps)
  obtain k p where kp: "kp = (k, p)" by (cases kp)
  have d: "distinct (map fst ps)" and k: "k \<notin> fst ` set ps"
    using Cons.prems(2) kp by auto
  have fresh: "k \<notin> set qs" if "to_remove strptime clock m ps = Inr qs" for m qs
    using to_remove_keys [OF that, of k] k by force
  show ?case
  proof (cases "variant p")
    case (Grocery e)
    then obtain b qs where qs: "to_remove strptime clock (Suc n) ps = Inr qs"
      and pids: "pids = (if b then k # qs else qs)"
      using Cons.prems(1) kp by (auto split: sum.splits)
    show ?thesis
      using pids Cons.IH [OF qs d] fresh [OF qs] by simp
  next
    case (Electronics w b)
    then have "to_remove strptime clock n ps = Inr pids"
      using Cons.prems(1) kp by simp
    then show ?thesis using Cons.IH d by simp
  next
    case (Clothing s m)
    then have "to_remove strptime clock n ps = Inr pids"
      using Cons.prems(1) kp by simp
    then show ?thesis using Cons.IH d by simp
  qed
qed

lemma del_each_filter:
  "distinct pids \<Longrightarrow> set pids \<subseteq> fst ` set ps \<Longrightarrow>
   del_each pids ps = (None, filter (\<lambda>kp. fst kp \<notin> set pids) ps)"
proof (induction pids arbitrary: ps)
  case Nil
  then show ?case by simp
next
  case (Cons k ks)
  have present: "map_of ps k \<noteq> None"
    using Cons.prems(2) by (simp add: map_of_eq_None_iff)
  have "set ks \<subseteq> fst ` set (AList.delete k ps)"
  proof
    fix x assume x: "x \<in> set ks"
    then have "x \<noteq> k" using Cons.prems(1) by auto
    moreover obtain v where "(x, v) \<in> set ps"
      using x Cons.prems(2) by auto
    ultimately show "x \<in> fst ` set (AList.delete k ps)"
      by (force simp: AList.delete_eq)
  qed
  then have "del_each ks (AList.delete k ps) =
      (None, filter (\<lambda>kp. fst kp \<notin> set ks) (AList.delete k ps))"
    using Cons.IH Cons.prems(1) by simp
  moreover have "filter (\<lambda>kp. fst kp \<notin> set ks) (AList.delete k ps) =
      filter (\<lambda>kp. fst kp \<notin> set (k # ks)) ps"
    by (auto simp: AList.delete_eq intro: filter_cong)
  ultimately show ?case
    using present by simp
qed

lemma to_remove_fixed_date:
  "list_all (\<lambda>(k, p). case variant p of Grocery e \<Rightarrow> strptime e \<noteq> None | _ \<Rightarrow> True) ps \<Longrightarrow>
   to_remove strptime (\<lambda>n. today) n ps =
     Inr (map fst (filter (\<lambda>kp. expiry_before strptime today (snd kp)) ps))"
proof (induction ps arbitrary: n)
  case Nil
  show ?case by simp
next
  case (Cons kp ps)
  obtain k p where kp: "kp = (k, p)" by (cases kp)
  show ?case
    using Cons.prems Cons.IH kp
    by (cases "variant p") (auto simp: expiry_before_def is_expired_def)
qed

lemma remove_expired_filter:
  assumes "distinct (map fst (products self))"
    and "to_remove strptime clock 0 (products self) = Inr pids"
  shows "remove_expired_products strptime clock self =
           (None, self\<lparr>products := filter (\<lambda>kp. fst kp \<notin> set pids) (products self)\<rparr>)"
proof -
  have "set pids \<subseteq> fst ` set (products self)"
    using to_remove_keys [OF assms(2)] by force
  then have "del_each pids (products self) = (None, filter (\<lambda>kp. fst kp \<notin> set pids) (products self))"
    using to_remove_distinct [OF assms(2) assms(1)] by (rule del_each_filter [rotated])
  then show ?thesis
    using assms(2) by (simp add: remove_expired_products_def)
qed

lemma other_products_kept:
  assumes "distinct (map fst (products self))"
    and "(k, p) \<in> set (products self)" and "\<not> is_Grocery p"
  shows "(k, p) \<in> set (products (snd (remove_expired_products strptime clock self)))"
proof (cases "to_remove strptime clock 0 (products self)")
  case (Inl e)
  then show ?thesis using assms(2) by (simp add: remove_expired_products_def)
next
  case (Inr pids)
  have "k \<notin> set pids"
  proof
    assume "k \<in> set pids"
    then obtain q where q: "(k, q) \<in> set (products self)" "is_Grocery q"
      using to_remove_keys [OF Inr] by blast
    have "q = p"
      using assms(1) q(1) assms(2) by (meson eq_key_imp_eq_value)
    then show False using q(2) assms(3) by simp
  qed
  then show ?thesis
    using remove_expired_filter [OF assms(1) Inr] assms(2) by simp
qed

text \<open>
  C6, as stated, fails: every \<open>Grocery\<close> product is compared with the date that the clock
  shows when its own \<open>is_expired\<close> runs. When the date changes during the call (the first
  reading is 2024-06-15, the second 2024-06-16), of two groceries that both expire on
  2024-06-15 the first is kept and the second removed.
\<close>

theorem remove_expired_counterexample:
  "remove_expired_products iso_date (\<lambda>n. (2024, 6, 15 + n))
     \<lparr>products = [(''G001'', dated ''G001'' ''2024-06-15''), (''G002'', dated ''G002'' ''2024-06-15'')]\<rparr> =
   (None, \<lparr>products = [(''G001'', dated ''G001'' ''2024-06-15'')]\<rparr>)"
  by (simp add: remove_expired_products_def is_expired_def dated_def milk_def
      iso_date_def digit_def days_in_month_def leap_year_def)

text \<open>
  C6, amended. \<open>remove_expired_products\<close> never removes an \<open>Electronics\<close> or a
  \<open>Clothing\<close> product, whatever the clock shows. When every \<open>expiry_date\<close> is a date and
  the clock shows one and the same date during the whole call, it raises nothing and removes
  exactly the \<open>Grocery\<close> products whose \<open>expiry_date\<close> is strictly before that date: one
  that expires on that date or later stays, and so does every other product, in its place.
\<close>

theorem remove_expired_fixed_date:
  assumes "dict_ok self"
  shows "(\<forall>(k, p) \<in> set (products self). \<not> is_Grocery p \<longrightarrow>
            (k, p) \<in> set (products (snd (remove_expired_products strptime clock self)))) \<and>
         (expiry_dates_ok strptime self \<and> (\<forall>n. clock n = today) \<longrightarrow>
            remove_expired_products strptime clock self =
              (None, self\<lparr>products :=
                 filter (\<lambda>(k, p). \<not> expiry_before strptime today p) (products self)\<rparr>))"
proof -
  have d: "distinct (map fst (products self))"
    using assms by (simp add: dict_ok_def)
  have kept: "\<forall>(k, p) \<in> set (products self). \<not> is_Grocery p \<longrightarrow>
      (k, p) \<in> set (products (snd (remove_expired_products strptime clock self)))"
    using other_products_kept [OF d] by auto
  have fixed: "remove_expired_products strptime clock self =
      (None, self\<lparr>products := filter (\<lambda>(k, p). \<not> expiry_before strptime today p) (products self)\<rparr>)"
    if ok: "expiry_dates_ok strptime self" and c: "\<forall>n. clock n = today"
  proof -
    let ?E = "\<lambda>kp. expiry_before strptime today (snd kp)"
    have clock: "clock = (\<lambda>n. today)" using c by auto
    have tr: "to_remove strptime clock 0 (products self) = Inr (map fst (filter ?E (products self)))"
      unfolding clock using ok by (intro to_remove_fixed_date) (simp add: expiry_dates_ok_def)
    have "filter (\<lambda>kp. fst kp \<notin> set (map fst (filter ?E (products self)))) (products self) =
          filter (\<lambda>(k, p). \<not> expiry_before strptime today p) (products self)"
    proof (rule filter_cong [OF refl])
      fix kp assume kp: "kp \<in> set (products self)"
      have "fst kp \<in> fst ` {x \<in> set (products self). ?E x} \<longleftrightarrow> ?E kp"
      proof
        assume "fst kp \<in> fst ` {x \<in> set (products self). ?E x}"
        then obtain x where x: "x \<in> set (products self)" "?E x" "fst x = fst kp" by auto
        have "x = kp"
          using d x(1) x(3) kp by (metis eq_key_imp_eq_value prod.collapse)
        then show "?E kp" using x(2) by simp
      next
        assume "?E kp"
        then show "fst kp \<in> fst ` {x \<in> set (products self). ?E x}" using kp by auto
      qed
      then show "(fst kp \<notin> set (map fst (filter ?E (products self)))) =
                 (case kp of (k, p) \<Rightarrow> \<not> expiry_before strptime today p)"
        by (auto simp: case_prod_beta)
    qed
    then show ?thesis
      using remove_expired_filter [OF d tr] by simp
  qed
  from kept fixed show ?thesis by blast
qed

theorem remove_expired_fixed_date_witness:
  "dict_ok dated_inventory \<and> expiry_dates_ok iso_date dated_inventory \<and>
   remove_expired_products iso_date (\<lambda>n. (2024, 6, 15)) dated_inventory =
     (None, \<lparr>products =
        [(''E001'', phone),
         (''G002'', dated ''G002'' ''2024-06-15''),
         (''G003'', dated ''G003'' ''2024-06-16''),
         (''C001'', shirt)]\<rparr>)"
proof -
  have h: "dict_ok dated_inventory"
    by (simp add: dict_ok_def dated_inventory_def dated_def phone_def shirt_def)
  have e: "expiry_dates_ok iso_date dated_inventory"
    by (simp add: expiry_dates_ok_def dated_inventory_def dated_def phone_def shirt_def
        iso_date_def digit_def days_in_month_def leap_year_def)
  show ?thesis
    using h e remove_expired_fixed_date [OF h, of iso_date "\<lambda>n. (2024, 6, 15)" "(2024, 6, 15)"]
    by (simp add: dated_inventory_def expiry_before_def dated_def phone_def shirt_def
        iso_date_def digit_def days_in_month_def leap_year_def)
qed

section \<open>Loading\<close>

lemma same_keys_iff: "same_keys xs ys \<longleftrightarrow> set xs = set ys"
  by (auto simp: same_keys_def list_all_iff)

lemma create_unknown:
  "record_fields tag = None \<Longrightarrow>
   create_product_from_dict tag data = Some (Inl (Exn InvalidProductDataError (Unknown_product_type tag)))"
  by (simp add: record_fields_def create_product_from_dict_def split: if_splits)

lemma built_SomeD:
  assumes "built item = Some p"
  shows "\<exists>tag data. pop_type item = Inr (tag, data) \<and> create_product_from_dict tag data = Some (Inr p)"
proof (cases "pop_type item")
  case (Inl e)
  then show ?thesis using assms by (simp add: built_def)
next
  case (Inr td)
  obtain tag data where td: "td = (tag, data)" by (cases td)
  show ?thesis
  proof (cases "create_product_from_dict tag data")
    case None
    then show ?thesis using assms Inr td by (simp add: built_def)
  next
    case (Some r)
    then show ?thesis using assms Inr td by (cases r) (simp_all add: built_def)
  qed
qed

lemma load_items_built:
  assumes "built item = Some p"
  shows "load_items self (item # items) = load_items (insert_all [p] self) items"
proof -
  obtain tag data where "pop_type item = Inr (tag, data)"
    and "create_product_from_dict tag data = Some (Inr p)"
    using built_SomeD [OF assms] by blast
  then show ?thesis by (simp add: insert_all_def)
qed

lemma load_items_raised:
  assumes "raised item = Some e"
  shows "load_items self (item # items) = Some (Some e, self)"
proof (cases "pop_type item")
  case (Inl e')
  then show ?thesis using assms by (simp add: raised_def)
next
  case (Inr td)
  obtain tag data where td: "td = (tag, data)" by (cases td)
  show ?thesis
  proof (cases "create_product_from_dict tag data")
    case None
    then show ?thesis using assms Inr td by (simp add: raised_def)
  next
    case (Some r)
    then show ?thesis using assms Inr td by (cases r) (simp_all add: raised_def)
  qed
qed

lemma load_items_neither:
  assumes "built item = None" and "raised item = None"
  shows "load_items self (item # items) = None"
proof (cases "pop_type item")
  case (Inl e')
  then show ?thesis using assms by (simp add: raised_def)
next
  case (Inr td)
  obtain tag data where td: "td = (tag, data)" by (cases td)
  show ?thesis
  proof (cases "create_product_from_dict tag data")
    case None
    then show ?thesis using Inr td by simp
  next
    case (Some r)
    then show ?thesis using assms Inr td by (cases r) (simp_all add: raised_def built_def)
  qed
qed



subsection \<open>The method on values of any type\<close>

lemma those_map_of:
  "those (map (map_of d) ks) =
     (if list_all (\<lambda>k. k \<in> fst ` set d) ks then Some (map (\<lambda>k. the (map_of d k)) ks) else None)"
proof (induction ks)
  case Nil
  show ?case by simp
next
  case (Cons k ks)
  show ?case
  proof (cases "map_of d k")
    case None
    then have "k \<notin> fst ` set d" by (simp add: map_of_eq_None_iff)
    then show ?thesis using None by simp
  next
    case (Some v)
    then have "k \<in> fst ` set d" by (metis map_of_eq_None_iff option.distinct(1))
    then show ?thesis using Some Cons by simp
  qed
qed

lemma call_kwargs_eq:
  "call_kwargs params data =
     (if same_keys (map fst data) params then Inr (map (\<lambda>k. the (map_of data k)) params)
      else Inl (Exn TypeError Library_text))"
proof -
  have ex: "list_ex (\<lambda>k. k \<notin> set params) (map fst data) \<longleftrightarrow>
      \<not> list_all (\<lambda>k. k \<in> set params) (map fst data)"
    by (simp add: list_ex_iff list_all_iff)
  have "list_all (\<lambda>k. k \<in> fst ` set data) params = list_all (\<lambda>k. k \<in> set (map fst data)) params"
    by simp
  then show ?thesis
    unfolding call_kwargs_def ex those_map_of same_keys_def by simp
qed

lemma record_fields_cases:
  assumes "record_fields tag = Some fs"
  obtains "tag = JStr ''Electronics''"
      and "fs = [''product_id'', ''name'', ''price'', ''quantity_in_stock'', ''warranty_years'', ''brand'']"
    | "tag = JStr ''Grocery''"
      and "fs = [''product_id'', ''name'', ''price'', ''quantity_in_stock'', ''expiry_date'']"
    | "tag = JStr ''Clothing''"
      and "fs = [''product_id'', ''name'', ''price'', ''quantity_in_stock'', ''size'', ''material'']"
  using assms by (auto simp: record_fields_def split: if_splits)

lemma create_untyped_unknown:
  "record_fields tag = None \<Longrightarrow>
   create_product_from_dict_untyped tag data = Inl (Exn InvalidProductDataError (Unknown_product_type tag))"
  by (simp add: record_fields_def create_product_from_dict_untyped_def split: if_splits)

lemma create_untyped_mismatch:
  assumes "record_fields tag = Some fs" and "\<not> same_keys (map fst data) fs"
  shows "create_product_from_dict_untyped tag data = Inl (Exn TypeError Library_text)"
  using assms(1)
proof (cases rule: record_fields_cases)
  case 1
  then show ?thesis
    using assms(2) by (simp add: create_product_from_dict_untyped_def Product_params_def call_kwargs_eq)
next
  case 2
  then show ?thesis
    using assms(2) by (simp add: create_product_from_dict_untyped_def Product_params_def call_kwargs_eq)
next
  case 3
  then show ?thesis
    using assms(2) by (simp add: create_product_from_dict_untyped_def Product_params_def call_kwargs_eq)
qed

lemma create_untyped_match:
  assumes "record_fields tag = Some fs" and "same_keys (map fst data) fs"
  shows "\<exists>p. create_product_from_dict_untyped tag data = Inr p \<and>
             py_product_id p = the (map_of data ''product_id'')"
  using assms(1)
proof (cases rule: record_fields_cases)
  case 1
  then show ?thesis
    using assms(2) by (simp add: create_product_from_dict_untyped_def Product_params_def call_kwargs_eq)
next
  case 2
  then show ?thesis
    using assms(2) by (simp add: create_product_from_dict_untyped_def Product_params_def call_kwargs_eq)
next
  case 3
  then show ?thesis
    using assms(2) by (simp add: create_product_from_dict_untyped_def Product_params_def call_kwargs_eq)
qed

lemma product_id_a_field: "record_fields tag = Some fs \<Longrightarrow> ''product_id'' \<in> set fs \<and> ''type'' \<notin> set fs"
  by (auto simp: record_fields_def split: if_splits)

lemma dict_key_hashable: "(\<exists>k. dict_key v = Inr k) \<longleftrightarrow> hashable v"
proof (cases v)
  case (JNum n)
  then show ?thesis by (cases n) (simp_all add: hashable_def)
qed (simp_all add: hashable_def)

lemma dict_key_unhashable: "\<not> hashable v \<Longrightarrow> dict_key v = Inl (Exn TypeError Library_text)"
  by (cases v) (simp_all add: hashable_def)

lemma same_keys_delete_type:
  assumes "map_of kvs ''type'' = Some tag" and "''type'' \<notin> set fs"
  shows "same_keys (map fst (AList.delete ''type'' kvs)) fs \<longleftrightarrow> same_keys (map fst kvs) (''type'' # fs)"
proof -
  have "''type'' \<in> fst ` set kvs"
    using assms(1) by (metis map_of_eq_None_iff option.distinct(1))
  moreover have "set (map fst (AList.delete ''type'' kvs)) = fst ` set kvs - {''type''}"
    by (force simp: AList.delete_eq)
  ultimately show ?thesis
    using assms(2) unfolding same_keys_iff by auto
qed

lemma load_item_accepted:
  "record_accepted item \<longleftrightarrow> (\<exists>kp. load_item item = Inr kp)"
proof (cases item)
  case (JObj kvs)
  show ?thesis
  proof (cases "map_of kvs ''type''")
    case None
    then show ?thesis using JObj by (simp add: record_accepted_def load_item_def)
  next
    case (Some tag)
    let ?data = "AList.delete ''type'' kvs"
    have pop: "pop_type item = Inr (tag, ?data)"
      using JObj Some by simp
    show ?thesis
    proof (cases "record_fields tag")
      case None
      then show ?thesis
        using JObj Some pop by (simp add: record_accepted_def load_item_def create_untyped_unknown)
    next
      case fs: (Some fs)
      have f: "''product_id'' \<in> set fs" "''type'' \<notin> set fs"
        using product_id_a_field [OF fs] by simp_all
      have keys: "same_keys (map fst ?data) fs \<longleftrightarrow> same_keys (map fst kvs) (''type'' # fs)"
        using Some f(2) by (rule same_keys_delete_type)
      show ?thesis
      proof (cases "same_keys (map fst ?data) fs")
        case False
        then have "create_product_from_dict_untyped tag ?data = Inl (Exn TypeError Library_text)"
          using fs by (simp add: create_untyped_mismatch)
        then show ?thesis
          using JObj Some fs pop keys False by (simp add: record_accepted_def load_item_def)
      next
        case True
        then obtain p where p: "create_product_from_dict_untyped tag ?data = Inr p"
          and pid: "py_product_id p = the (map_of ?data ''product_id'')"
          using create_untyped_match [OF fs] by blast
        have "''product_id'' \<in> fst ` set kvs"
          using True keys f(1) by (auto simp: same_keys_iff)
        then obtain v where v: "map_of kvs ''product_id'' = Some v"
          by (metis map_of_eq_None_iff not_Some_eq)
        then have pv: "py_product_id p = v"
          using pid by simp
        have acc: "record_accepted item \<longleftrightarrow> hashable v"
          using JObj Some fs keys True v by (simp add: record_accepted_def)
        have "(\<exists>kp. load_item item = Inr kp) \<longleftrightarrow> (\<exists>k. dict_key v = Inr k)"
          using pop p pv by (cases "dict_key v") (simp_all add: load_item_def)
        then show ?thesis
          using acc dict_key_hashable by simp
      qed
    qed
  qed
qed (simp_all add: record_accepted_def load_item_def)

lemma load_item_unknown_tag:
  assumes "map_of kvs ''type'' = Some tag" and "record_fields tag = None"
  shows "load_item (JObj kvs) = Inl (Exn InvalidProductDataError (Unknown_product_type tag))"
  using assms by (simp add: load_item_def create_untyped_unknown)

lemma load_items_untyped_Cons:
  "load_items_untyped self (item # items) =
     (case load_item item of
        Inl e \<Rightarrow> (Some e, self)
      | Inr (k, p) \<Rightarrow> load_items_untyped (self\<lparr>py_products := AList.update k p (py_products self)\<rparr>) items)"
proof (cases "pop_type item")
  case (Inl e)
  then show ?thesis by (simp add: load_item_def)
next
  case (Inr td)
  obtain tag data where td: "td = (tag, data)" by (cases td)
  show ?thesis
  proof (cases "create_product_from_dict_untyped tag data")
    case (Inl e)
    then show ?thesis using Inr td by (simp add: load_item_def)
  next
    case p: (Inr p)
    show ?thesis
      using Inr td p by (cases "dict_key (py_product_id p)") (simp_all add: load_item_def)
  qed
qed

lemma load_items_untyped_ok:
  "fst (load_items_untyped self items) = None \<longleftrightarrow> list_all record_accepted items"
proof (induction items arbitrary: self)
  case Nil
  show ?case by simp
next
  case (Cons item items)
  show ?case
  proof (cases "load_item item")
    case (Inl e)
    then have "\<not> record_accepted item"
      by (simp add: load_item_accepted)
    then show ?thesis
      using Inl by (simp add: load_items_untyped_Cons del: load_items_untyped.simps)
  next
    case (Inr kp)
    then have "record_accepted item"
      using load_item_accepted by blast
    then show ?thesis
      using Inr Cons.IH
      by (simp add: load_items_untyped_Cons case_prod_beta del: load_items_untyped.simps)
  qed
qed

lemma load_items_untyped_first_failure:
  "list_all record_accepted pre \<Longrightarrow> load_item bad = Inl e \<Longrightarrow>
   fst (load_items_untyped self (pre @ bad # post)) = Some e"
proof (induction pre arbitrary: self)
  case Nil
  then show ?case by (simp add: load_items_untyped_Cons del: load_items_untyped.simps)
next
  case (Cons item pre)
  then obtain kp where "load_item item = Inr kp"
    using load_item_accepted by auto
  then show ?case
    using Cons
    by (simp add: load_items_untyped_Cons case_prod_beta del: load_items_untyped.simps)
qed

lemma load_from_file_untyped_fst:
  "fst (load_from_file_untyped self file) =
     map_option (\<lambda>e. Exn InvalidProductDataError (Error_loading_data (msg e)))
       (fst (load_body_untyped self file))"
  by (cases "load_body_untyped self file")
     (simp add: load_from_file_untyped_def split: option.splits)

subsection \<open>The typed model is the method where it has a result\<close>

lemma as_str_Some: "as_str v = Some s \<longleftrightarrow> v = JStr s"
  by (cases v) auto

lemma as_number_Some: "as_number v = Some n \<longleftrightarrow> v = JNum n"
  by (cases v) auto

lemma as_int_Some: "as_int v = Some n \<longleftrightarrow> v = JNum (PyInt n)"
proof (cases v)
  case (JNum x)
  then show ?thesis by (cases x) auto
qed auto

lemma Product_init_Some:
  assumes "Product_init a b c d v = Some p"
  shows "a = JStr (product_id p) \<and> b = JStr (name p) \<and> c = JNum (price p) \<and>
         d = JNum (PyInt (quantity_in_stock p)) \<and> variant p = v"
  using assms
  by (auto simp: Product_init_def bind_eq_Some_conv as_str_Some as_number_Some as_int_Some)

lemma Electronics_init_Some:
  assumes "Electronics_init [a, b, c, d, w, br] = Some p"
  shows "Electronics_call [a, b, c, d, w, br] = Inr (untyped p)"
proof -
  obtain wi bs where w: "w = JNum (PyInt wi)" and br: "br = JStr bs"
    and p: "Product_init a b c d (Electronics wi bs) = Some p"
    using assms by (auto simp: Electronics_init_def bind_eq_Some_conv as_str_Some as_int_Some)
  show ?thesis
    using Product_init_Some [OF p] w br by (simp add: untyped_def)
qed

lemma Grocery_init_Some:
  assumes "Grocery_init [a, b, c, d, x] = Some p"
  shows "Grocery_call [a, b, c, d, x] = Inr (untyped p)"
proof -
  obtain xs where x: "x = JStr xs"
    and p: "Product_init a b c d (Grocery xs) = Some p"
    using assms by (auto simp: Grocery_init_def bind_eq_Some_conv as_str_Some)
  show ?thesis
    using Product_init_Some [OF p] x by (simp add: untyped_def)
qed

lemma Clothing_init_Some:
  assumes "Clothing_init [a, b, c, d, sz, mt] = Some p"
  shows "Clothing_call [a, b, c, d, sz, mt] = Inr (untyped p)"
proof -
  obtain ss ms where sz: "sz = JStr ss" and mt: "mt = JStr ms"
    and p: "Product_init a b c d (Clothing ss ms) = Some p"
    using assms by (auto simp: Clothing_init_def bind_eq_Some_conv as_str_Some)
  show ?thesis
    using Product_init_Some [OF p] sz mt by (simp add: untyped_def)
qed

lemma create_agree_built:
  assumes "create_product_from_dict tag data = Some (Inr p)"
  shows "create_product_from_dict_untyped tag data = Inr (untyped p)"
proof (cases "record_fields tag")
  case None
  then show ?thesis using assms by (simp add: create_unknown)
next
  case (Some fs)
  then show ?thesis
  proof (cases rule: record_fields_cases)
    case 1
    then show ?thesis
      using assms Electronics_init_Some
      by (auto simp: create_product_from_dict_def create_product_from_dict_untyped_def
          Product_params_def call_kwargs_eq split: if_splits)
  next
    case 2
    then show ?thesis
      using assms Grocery_init_Some
      by (auto simp: create_product_from_dict_def create_product_from_dict_untyped_def
          Product_params_def call_kwargs_eq split: if_splits)
  next
    case 3
    then show ?thesis
      using assms Clothing_init_Some
      by (auto simp: create_product_from_dict_def create_product_from_dict_untyped_def
          Product_params_def call_kwargs_eq split: if_splits)
  qed
qed

lemma create_agree_raised:
  assumes "create_product_from_dict tag data = Some (Inl e)"
  shows "create_product_from_dict_untyped tag data = Inl e"
proof (cases "record_fields tag")
  case None
  then show ?thesis using assms by (simp add: create_unknown create_untyped_unknown)
next
  case (Some fs)
  then show ?thesis
  proof (cases rule: record_fields_cases)
    case 1
    then show ?thesis
      using assms
      by (auto simp: create_product_from_dict_def create_product_from_dict_untyped_def
          Product_params_def call_kwargs_eq split: if_splits)
  next
    case 2
    then show ?thesis
      using assms
      by (auto simp: create_product_from_dict_def create_product_from_dict_untyped_def
          Product_params_def call_kwargs_eq split: if_splits)
  next
    case 3
    then show ?thesis
      using assms
      by (auto simp: create_product_from_dict_def create_product_from_dict_untyped_def
          Product_params_def call_kwargs_eq split: if_splits)
  qed
qed

lemma update_untyped:
  "AList.update (KStr k) (untyped p) (map (\<lambda>(k, p). (KStr k, untyped p)) ps) =
   map (\<lambda>(k, p). (KStr k, untyped p)) (AList.update k p ps)"
  by (induction ps) auto

lemma load_items_agree:
  "load_items self items = Some (r, self') \<Longrightarrow>
   load_items_untyped (untyped_inventory self) items = (r, untyped_inventory self')"
proof (induction items arbitrary: self)
  case Nil
  then show ?case by simp
next
  case (Cons item items)
  show ?case
  proof (cases "built item")
    case (Some p)
    then obtain tag data where pop: "pop_type item = Inr (tag, data)"
      and cr: "create_product_from_dict tag data = Some (Inr p)"
      using built_SomeD by blast
    have "load_items (insert_all [p] self) items = Some (r, self')"
      using Cons.prems load_items_built [OF Some] by simp
    then have "load_items_untyped (untyped_inventory (insert_all [p] self)) items =
        (r, untyped_inventory self')"
      by (rule Cons.IH)
    moreover have "untyped_inventory (insert_all [p] self) =
        (untyped_inventory self)\<lparr>py_products :=
           AList.update (KStr (product_id p)) (untyped p) (py_products (untyped_inventory self))\<rparr>"
      by (simp add: untyped_inventory_def insert_all_def update_untyped)
    moreover have "dict_key (py_product_id (untyped p)) = Inr (KStr (product_id p))"
      by (simp add: untyped_def)
    ultimately show ?thesis
      using pop create_agree_built [OF cr] by simp
  next
    case None
    show ?thesis
    proof (cases "raised item")
      case None
      with \<open>built item = None\<close> have "load_items self (item # items) = None"
        by (rule load_items_neither)
      then show ?thesis using Cons.prems by simp
    next
      case (Some e)
      then have res: "r = Some e" "self' = self"
        using Cons.prems load_items_raised [OF Some, of self items] by simp_all
      show ?thesis
      proof (cases "pop_type item")
        case (Inl e')
        then show ?thesis using Some res by (simp add: raised_def)
      next
        case (Inr td)
        obtain tag data where td: "td = (tag, data)" by (cases td)
        have "create_product_from_dict tag data = Some (Inl e)"
        proof (cases "create_product_from_dict tag data")
          case None
          then show ?thesis using Some Inr td by (simp add: raised_def)
        next
          case c: (Some x)
          then show ?thesis using Some Inr td by (cases x) (simp_all add: raised_def)
        qed
        then have "create_product_from_dict_untyped tag data = Inl e"
          by (rule create_agree_raised)
        then show ?thesis using Inr td res by simp
      qed
    qed
  qed
qed

lemma load_from_file_agree:
  assumes "load_from_file self file = Some (r, self')"
  shows "load_from_file_untyped (untyped_inventory self) file = (r, untyped_inventory self')"
proof -
  obtain r0 where body: "load_body self file = Some (r0, self')"
    and r: "r = map_option (\<lambda>e. Exn InvalidProductDataError (Error_loading_data (msg e))) r0"
    using assms by (auto simp: load_from_file_def split: option.splits)
  have "load_body_untyped (untyped_inventory self) file = (r0, untyped_inventory self')"
  proof (cases "file")
    case (Inl e)
    then show ?thesis using body by (auto simp: load_body_def load_body_untyped_def)
  next
    case (Inr data)
    show ?thesis
    proof (cases "iterate data")
      case (Inl e)
      then show ?thesis using body Inr by (auto simp: load_body_def load_body_untyped_def)
    next
      case items: (Inr items)
      then have "load_items self items = Some (r0, self')"
        using body Inr by (simp add: load_body_def)
      then show ?thesis
        using Inr items load_items_agree by (simp add: load_body_untyped_def)
    qed
  qed
  then show ?thesis
    using r by (cases r0) (simp_all add: load_from_file_untyped_def)
qed

subsection \<open>What fails and what does not\<close>

text \<open>
  C7, as stated, fails: not everything that departs from the record format is a failure. An
  empty dictionary or an empty string at the top level has no item to fail on, and a record
  with the members of its tag is loaded whatever the types of its values: in all three cases
  nothing is raised.
\<close>

theorem load_failures_counterexample:
  "load_from_file_untyped \<lparr>py_products = []\<rparr> (Inr (JObj [])) = (None, \<lparr>py_products = []\<rparr>) \<and>
   load_from_file_untyped \<lparr>py_products = []\<rparr> (Inr (JStr [])) = (None, \<lparr>py_products = []\<rparr>) \<and>
   load_from_file_untyped \<lparr>py_products = []\<rparr> (Inr (JArr [odd_record])) =
     (None, \<lparr>py_products = [(KStr ''G9'', odd_milk)]\<rparr>)"
  by (simp add: load_from_file_untyped_def load_body_untyped_def odd_record_def odd_milk_def
      create_product_from_dict_untyped_def call_kwargs_def Product_params_def)

text \<open>
  C7, amended. What \<open>load_from_file\<close> raises is always \<open>InvalidProductDataError\<close> with the
  text of the cause in its message. That is so when the file cannot be opened or parsed and
  when the document cannot be iterated. For a document that can be iterated, the call raises
  nothing exactly when every item is an object with one of the three tags, exactly the
  members of its tag (none missing, none extra) and a \<open>product_id\<close> that can be a key; so a
  record with another tag, anywhere in the document, makes the call fail, and when it is the
  first item that fails the message is that of \<open>Unknown product type\<close> with the tag.
\<close>

theorem load_failures:
  "load_from_file_untyped self (Inl e) =
     (Some (Exn InvalidProductDataError (Error_loading_data (msg e))), self) \<and>
   (iterate data = Inl e \<longrightarrow>
      load_from_file_untyped self (Inr data) =
        (Some (Exn InvalidProductDataError (Error_loading_data (msg e))), self)) \<and>
   (iterate data = Inr items \<longrightarrow>
      (fst (load_from_file_untyped self (Inr data)) = None \<longleftrightarrow> list_all record_accepted items)) \<and>
   (fst (load_from_file_untyped self file) = Some e' \<longrightarrow>
      (\<exists>m. e' = Exn InvalidProductDataError (Error_loading_data m))) \<and>
   (iterate data = Inr items \<and> JObj kvs \<in> set items \<and>
    map_of kvs ''type'' = Some tag \<and> record_fields tag = None \<longrightarrow>
      (\<exists>m. fst (load_from_file_untyped self (Inr data)) =
         Some (Exn InvalidProductDataError (Error_loading_data m)))) \<and>
   (iterate data = Inr (pre @ JObj kvs # post) \<and> list_all record_accepted pre \<and>
    map_of kvs ''type'' = Some tag \<and> record_fields tag = None \<longrightarrow>
      fst (load_from_file_untyped self (Inr data)) =
        Some (Exn InvalidProductDataError (Error_loading_data (Unknown_product_type tag))))"
proof -
  have a: "load_from_file_untyped self (Inl e) =
      (Some (Exn InvalidProductDataError (Error_loading_data (msg e))), self)"
    by (simp add: load_from_file_untyped_def load_body_untyped_def)
  have b: "iterate data = Inl e \<longrightarrow>
      load_from_file_untyped self (Inr data) =
        (Some (Exn InvalidProductDataError (Error_loading_data (msg e))), self)"
    by (simp add: load_from_file_untyped_def load_body_untyped_def)
  have c: "fst (load_from_file_untyped self (Inr data)) = None \<longleftrightarrow> list_all record_accepted items"
    if "iterate data = Inr items"
    using that load_items_untyped_ok [of self items]
    by (simp add: load_from_file_untyped_fst load_body_untyped_def)
  have d: "fst (load_from_file_untyped self file) = Some e' \<longrightarrow>
      (\<exists>m. e' = Exn InvalidProductDataError (Error_loading_data m))"
    by (auto simp: load_from_file_untyped_fst)
  have f: "\<exists>m. fst (load_from_file_untyped self (Inr data)) =
      Some (Exn InvalidProductDataError (Error_loading_data m))"
    if it: "iterate data = Inr items" and mem: "JObj kvs \<in> set items"
      and tag: "map_of kvs ''type'' = Some tag" and unknown: "record_fields tag = None"
  proof -
    have "\<not> record_accepted (JObj kvs)"
      using tag unknown by (simp add: record_accepted_def)
    then have "\<not> list_all record_accepted items"
      using mem by (auto simp: list_all_iff)
    then have "fst (load_from_file_untyped self (Inr data)) \<noteq> None"
      using c [OF it] by simp
    then show ?thesis
      by (auto simp: load_from_file_untyped_fst)
  qed
  have g: "fst (load_from_file_untyped self (Inr data)) =
      Some (Exn InvalidProductDataError (Error_loading_data (Unknown_product_type tag)))"
    if it: "iterate data = Inr (pre @ JObj kvs # post)" and pre: "list_all record_accepted pre"
      and tag: "map_of kvs ''type'' = Some tag" and unknown: "record_fields tag = None"
  proof -
    have "load_item (JObj kvs) = Inl (Exn InvalidProductDataError (Unknown_product_type tag))"
      using tag unknown by (rule load_item_unknown_tag)
    then have "fst (load_items_untyped self (pre @ JObj kvs # post)) =
        Some (Exn InvalidProductDataError (Unknown_product_type tag))"
      using pre by (intro load_items_untyped_first_failure)
    then show ?thesis
      using it by (simp add: load_from_file_untyped_fst load_body_untyped_def)
  qed
  from a b c d f g show ?thesis by blast
qed

theorem load_failures_witness:
  "iterate (JArr [odd_record, JObj [(''type'', JStr ''Toy'')], JObj (to_dict milk)]) =
     Inr ([odd_record] @ JObj [(''type'', JStr ''Toy'')] # [JObj (to_dict milk)]) \<and>
   list_all record_accepted [odd_record] \<and>
   map_of [(''type'', JStr ''Toy'')] ''type'' = Some (JStr ''Toy'') \<and>
   record_fields (JStr ''Toy'') = None \<and>
   fst (load_from_file_untyped \<lparr>py_products = []\<rparr>
          (Inr (JArr [odd_record, JObj [(''type'', JStr ''Toy'')], JObj (to_dict milk)]))) =
     Some (Exn InvalidProductDataError (Error_loading_data (Unknown_product_type (JStr ''Toy''))))"
  using load_failures [where data = "JArr [odd_record, JObj [(''type'', JStr ''Toy'')], JObj (to_dict milk)]"
      and pre = "[odd_record]" and kvs = "[(''type'', JStr ''Toy'')]" and post = "[JObj (to_dict milk)]"
      and tag = "JStr ''Toy''" and self = "\<lparr>py_products = []\<rparr>"]
  by (simp add: record_accepted_def record_fields_def same_keys_def hashable_def odd_record_def)

subsection \<open>What a load leaves in the store\<close>




end
